theory Spec2Isabelle
  imports Complex_Main "HOL-Library.Word"
begin

section \<open>The voice activity detection service of \<^verbatim>\<open>vad_service.py\<close>\<close>

text \<open>
  The development embeds \<^verbatim>\<open>SileroVADService.process_audio\<close> and the session
  store around it. Three collaborators of the method are outside the program and are
  taken as inputs of a call:
  \<^item> the Opus decoder (\<^verbatim>\<open>opuslib_next\<close>): creating it may fail, decoding a packet either
    raises \<^verbatim>\<open>OpusError\<close> or yields PCM bytes;
  \<^item> the Silero model: for the frame it is given it either returns a probability or
    raises;
  \<^item> the clock \<^verbatim>\<open>time.time() * 1000\<close>, read at most twice for a frame.
  Probabilities and times are floats in the source and reals here; the method only
  compares and subtracts them (a NaN, which no real stands for, would fail both
  threshold tests and keep the previous decision). The arguments
  \<^verbatim>\<open>sample_rate\<close> and \<^verbatim>\<open>channels\<close> are only forwarded to the model and do
  not appear.
\<close>

subsection \<open>Data\<close>

type_synonym byte = "8 word"

text \<open>The dictionary built by \<^verbatim>\<open>_get_or_create_session\<close>.\<close>

record session =
  audio_buffer :: "byte list"
  voice_window :: "bool list"
  have_voice :: bool
  last_is_voice :: bool
  last_activity_time :: real
  voice_stop :: bool

text \<open>The parameters that \<^verbatim>\<open>__init__\<close> stores on the service object.\<close>

record vad_service =
  vad_threshold :: real
  vad_threshold_low :: real
  silence_threshold_ms :: real
  frame_window_threshold :: int

text \<open>
  \<^verbatim>\<open>VADResponse\<close>; its fields carry the prefix \<open>r_\<close> to keep them apart from
  the session's fields of the same name.
\<close>

record VADResponse =
  r_have_voice :: bool
  r_voice_stop :: bool
  r_speech_prob :: "real option"

text \<open>The only exception that leaves \<^verbatim>\<open>process_audio\<close>: status 500, "Error processing audio".\<close>

datatype error = HTTPException500

text \<open>
  What lines 224 to 239 obtain for a packet: the decoder did not exist yet and could not
  be created, \<^verbatim>\<open>decode\<close> raised \<^verbatim>\<open>OpusError\<close>, or it returned PCM bytes.
\<close>

datatype decode_outcome = DecoderInitError | OpusError | Decoded "byte list"

text \<open>
  What one iteration of the loop obtains from outside: the answer of the model
  (\<open>None\<close> when it raises) and the clock as read in line 311 and in line 320.
\<close>

record frame_env =
  model_output :: "real option"
  time_check :: real
  time_update :: real

record call_env =
  decoder :: decode_outcome
  frames :: "nat \<Rightarrow> frame_env"

type_synonym sessions = "string \<rightharpoonup> session"

subsection \<open>Construction and the session store\<close>

text \<open>The defaults of \<^verbatim>\<open>__init__\<close>.\<close>

definition default_service :: vad_service where
  "default_service =
     \<lparr>vad_threshold = 0.5, vad_threshold_low = 0.2,
      silence_threshold_ms = 1000, frame_window_threshold = 3\<rparr>"

definition new_session :: session where
  "new_session =
     \<lparr>audio_buffer = [], voice_window = [], have_voice = False,
      last_is_voice = False, last_activity_time = 0, voice_stop = False\<rparr>"

definition get_or_create_session :: "sessions \<Rightarrow> string \<Rightarrow> sessions \<times> session" where
  "get_or_create_session ss session_id =
     (case ss session_id of
        None \<Rightarrow> (ss(session_id \<mapsto> new_session), new_session)
      | Some s \<Rightarrow> (ss, s))"

definition reset_session :: "sessions \<Rightarrow> string \<Rightarrow> sessions" where
  "reset_session ss session_id = ss(session_id := None)"

subsection \<open>The format test\<close>

text \<open>
  \<^verbatim>\<open>audio_format.lower() == "opus"\<close>. Only the letters A to Z have a lower-case
  form among o, p, u and s, so lowering the ASCII capitals decides the comparison.
\<close>

definition lower_char :: "char \<Rightarrow> char" where
  "lower_char c =
     (let n = (of_char c :: nat)
      in if 65 \<le> n \<and> n \<le> 90 then char_of (n + 32) else c)"

definition lower :: "string \<Rightarrow> string" where
  "lower s = map lower_char s"

definition is_opus :: "string \<Rightarrow> bool" where
  "is_opus audio_format = (lower audio_format = ''opus'')"

subsection \<open>One iteration of the frame loop\<close>

text \<open>Lines 286 to 293: the two thresholds.\<close>

definition dual_threshold :: "vad_service \<Rightarrow> real \<Rightarrow> bool \<Rightarrow> bool" where
  "dual_threshold svc prob previous =
     (if prob \<ge> vad_threshold svc then True
      else if prob \<le> vad_threshold_low svc then False
      else previous)"

text \<open>Lines 298 to 301: append, then keep the last ten entries.\<close>

definition window_append :: "bool list \<Rightarrow> bool \<Rightarrow> bool list" where
  "window_append w is_voice =
     (let w' = w @ [is_voice]
      in if length w' > 10 then drop (length w' - 10) w' else w')"

text \<open>Lines 304 to 306.\<close>

definition window_vote :: "vad_service \<Rightarrow> bool list \<Rightarrow> bool" where
  "window_vote svc w = (int (count_list w True) \<ge> frame_window_threshold svc)"

text \<open>Lines 310 to 315: the end-of-speech check.\<close>

definition check_voice_stop :: "vad_service \<Rightarrow> frame_env \<Rightarrow> bool \<Rightarrow> session \<Rightarrow> session" where
  "check_voice_stop svc fe client_have_voice s =
     (if have_voice s \<and> \<not> client_have_voice then
        (let current_time = time_check fe
         in if last_activity_time s > 0 then
              (let stop_duration = current_time - last_activity_time s
               in if stop_duration \<ge> silence_threshold_ms svc
                  then s\<lparr>voice_stop := True\<rparr> else s)
            else s)
      else s)"

text \<open>Lines 318 to 323.\<close>

definition update_state :: "frame_env \<Rightarrow> bool \<Rightarrow> session \<Rightarrow> session" where
  "update_state fe client_have_voice s =
     (if client_have_voice
      then s\<lparr>have_voice := True, last_activity_time := time_update fe, voice_stop := False\<rparr>
      else s\<lparr>have_voice := False\<rparr>)"

text \<open>
  The part of an iteration after the model has answered \<open>prob\<close> (lines 286 to 323);
  it returns the session and \<^verbatim>\<open>client_have_voice\<close>.
\<close>

definition classify_frame :: "vad_service \<Rightarrow> frame_env \<Rightarrow> real \<Rightarrow> session \<Rightarrow> session \<times> bool" where
  "classify_frame svc fe prob s =
     (let is_voice = dual_threshold svc prob (last_is_voice s);
          s1 = s\<lparr>last_is_voice := is_voice\<rparr>;
          s2 = s1\<lparr>voice_window := window_append (voice_window s1) is_voice\<rparr>;
          client_have_voice = window_vote svc (voice_window s2);
          s3 = check_voice_stop svc fe client_have_voice s2
      in (update_state fe client_have_voice s3, client_have_voice))"

text \<open>
  A whole iteration (lines 255 to 323). The frame leaves the buffer before the model is
  called, so the session that an exception of the model leaves behind has lost it.
  The result is the session together with \<open>None\<close> when the model raised, and with the
  probability and \<^verbatim>\<open>client_have_voice\<close> otherwise.
\<close>

definition frame_step :: "vad_service \<Rightarrow> frame_env \<Rightarrow> session \<Rightarrow> (real \<times> bool) option \<times> session" where
  "frame_step svc fe s =
     (let s0 = s\<lparr>audio_buffer := drop (512 * 2) (audio_buffer s)\<rparr>
      in case model_output fe of
           None \<Rightarrow> (None, s0)
         | Some prob \<Rightarrow>
             (let (s', client_have_voice) = classify_frame svc fe prob s0
              in (Some (prob, client_have_voice), s')))"

subsection \<open>The frame loop and the method\<close>

text \<open>
  The \<^verbatim>\<open>while\<close> loop of lines 254 to 323. \<open>k\<close> counts the frames drained so
  far in this call and selects the model's answer and the clock readings;
  \<open>client_have_voice\<close> and \<open>speech_prob\<close> are the two local variables.
\<close>

function drain ::
  "vad_service \<Rightarrow> (nat \<Rightarrow> frame_env) \<Rightarrow> nat \<Rightarrow> bool \<Rightarrow> real option \<Rightarrow> session
     \<Rightarrow> (error + bool \<times> real option) \<times> session" where
  "drain svc env k client_have_voice speech_prob s =
     (if length (audio_buffer s) \<ge> 512 * 2 then
        (case frame_step svc (env k) s of
           (None, s') \<Rightarrow> (Inl HTTPException500, s')
         | (Some (prob, chv), s') \<Rightarrow>
             drain svc env (Suc k) chv
               (case speech_prob of None \<Rightarrow> Some prob | Some p \<Rightarrow> Some p) s')
      else (Inr (client_have_voice, speech_prob), s))"
  by pat_completeness auto
termination
proof (relation "measure (\<lambda>(svc, env, k, chv, sp, s). length (audio_buffer s))", goal_cases)
  case 1
  show ?case by simp
next
  case (2 svc env k client_have_voice speech_prob s x1 x2 y prob chv)
  have "audio_buffer (snd (frame_step svc (env k) s)) = drop 1024 (audio_buffer s)"
    by (simp add: frame_step_def classify_frame_def check_voice_stop_def update_state_def
        Let_def split: option.splits)
  with 2(2) [symmetric] have "audio_buffer x2 = drop 1024 (audio_buffer s)"
    by simp
  with 2(1) show ?case by simp
qed

text \<open>Lines 250 to 335: the loop, then the response; a true \<^verbatim>\<open>voice_stop\<close> is reset.\<close>

definition run_frames ::
  "vad_service \<Rightarrow> (nat \<Rightarrow> frame_env) \<Rightarrow> session \<Rightarrow> (error + VADResponse) \<times> session" where
  "run_frames svc env s =
     (case drain svc env 0 False None s of
        (Inl e, s') \<Rightarrow> (Inl e, s')
      | (Inr (client_have_voice, speech_prob), s') \<Rightarrow>
          (let vs = voice_stop s';
               s'' = (if vs then s'\<lparr>voice_stop := False\<rparr> else s')
           in (Inr \<lparr>r_have_voice = client_have_voice, r_voice_stop = vs,
                     r_speech_prob = speech_prob\<rparr>, s'')))"

text \<open>
  The body of \<^verbatim>\<open>process_audio\<close> on the session it has fetched. The session is
  returned on every path: the source mutates it in place, also when it raises.
\<close>

definition process_session ::
  "vad_service \<Rightarrow> byte list \<Rightarrow> string \<Rightarrow> call_env \<Rightarrow> session
     \<Rightarrow> (error + VADResponse) \<times> session" where
  "process_session svc audio_data audio_format cenv s =
     (if is_opus audio_format then
        (case decoder cenv of
           DecoderInitError \<Rightarrow>
             (Inr \<lparr>r_have_voice = have_voice s, r_voice_stop = False, r_speech_prob = None\<rparr>, s)
         | OpusError \<Rightarrow>
             (Inr \<lparr>r_have_voice = have_voice s, r_voice_stop = False, r_speech_prob = None\<rparr>, s)
         | Decoded pcm_data \<Rightarrow>
             run_frames svc (frames cenv) (s\<lparr>audio_buffer := audio_buffer s @ pcm_data\<rparr>))
      else run_frames svc (frames cenv) (s\<lparr>audio_buffer := audio_buffer s @ audio_data\<rparr>))"

definition process_audio ::
  "vad_service \<Rightarrow> sessions \<Rightarrow> byte list \<Rightarrow> string \<Rightarrow> call_env \<Rightarrow> string
     \<Rightarrow> (error + VADResponse) \<times> sessions" where
  "process_audio svc ss audio_data audio_format cenv session_id =
     (let (ss', s) = get_or_create_session ss session_id;
          (res, s') = process_session svc audio_data audio_format cenv s
      in (res, ss'(session_id \<mapsto> s')))"

text \<open>
  The PCM bytes that lines 222 to 248 append to the buffer: the decoded packet for the
  format opus, the input itself for every other format, and nothing (\<open>None\<close>) when
  the decoder could not be created or raised \<^verbatim>\<open>OpusError\<close>.
\<close>

definition pcm_input :: "byte list \<Rightarrow> string \<Rightarrow> call_env \<Rightarrow> byte list option" where
  "pcm_input audio_data audio_format cenv =
     (if is_opus audio_format then
        (case decoder cenv of
           DecoderInitError \<Rightarrow> None
         | OpusError \<Rightarrow> None
         | Decoded pcm_data \<Rightarrow> Some pcm_data)
      else Some audio_data)"

text \<open>
  The session after \<open>n\<close> iterations of the loop body, the first of them on frame
  \<open>k\<close> of the call.
\<close>

primrec iter_frames ::
  "vad_service \<Rightarrow> (nat \<Rightarrow> frame_env) \<Rightarrow> nat \<Rightarrow> nat \<Rightarrow> session \<Rightarrow> session" where
  "iter_frames svc env k 0 s = s"
| "iter_frames svc env k (Suc n) s = iter_frames svc env (Suc k) n (snd (frame_step svc (env k) s))"

subsection \<open>Concrete calls\<close>

text \<open>
  A call whose frames are all scored, frame \<open>k\<close> with \<open>score k\<close>, while the clock
  stands at \<open>t\<close> milliseconds; and a call in which the model raises on frame \<open>n\<close>.
\<close>

definition clocked :: "(nat \<Rightarrow> real) \<Rightarrow> real \<Rightarrow> call_env" where
  "clocked score t =
     \<lparr>decoder = OpusError,
      frames = (\<lambda>k. \<lparr>model_output = Some (score k), time_check = t, time_update = t\<rparr>)\<rparr>"

definition raising_at :: "nat \<Rightarrow> (nat \<Rightarrow> real) \<Rightarrow> real \<Rightarrow> call_env" where
  "raising_at n score t =
     \<lparr>decoder = OpusError,
      frames = (\<lambda>k. \<lparr>model_output = (if k = n then None else Some (score k)),
                      time_check = t, time_update = t\<rparr>)\<rparr>"

definition speech_then_silence :: "nat \<Rightarrow> real" where
  "speech_then_silence k = (if k < 3 then 0.9 else 0)"

definition silence :: "nat \<Rightarrow> real" where
  "silence k = 0"

definition speech :: "nat \<Rightarrow> real" where
  "speech k = 0.9"

text \<open>
  The session of a client that sent ten frames, three of speech and seven of silence, in
  one call at time 1000: the window still holds three votes, so \<^verbatim>\<open>have_voice\<close> is
  true and the last activity is at 1000.
\<close>

definition voiced_session :: session where
  "voiced_session =
     \<lparr>audio_buffer = [],
      voice_window = [True, True, True, False, False, False, False, False, False, False],
      have_voice = True, last_is_voice = False, last_activity_time = 1000, voice_stop = False\<rparr>"

text \<open>
  The session that the same client is left with when its next call, at time 2500, brings
  two frames and the model raises on the second: the first frame has set
  \<^verbatim>\<open>voice_stop\<close>, and the exception has kept the method from reporting it.
\<close>

definition pending_session :: session where
  "pending_session =
     \<lparr>audio_buffer = [],
      voice_window = [True, True, False, False, False, False, False, False, False, False],
      have_voice = False, last_is_voice = False, last_activity_time = 1000, voice_stop = True\<rparr>"

section \<open>Properties\<close>

subsection \<open>Unfolding the loop\<close>

declare drain.simps [simp del]

lemma frame_step_buffer:
  "audio_buffer (snd (frame_step svc fe s)) = drop 1024 (audio_buffer s)"
  by (simp add: frame_step_def classify_frame_def check_voice_stop_def update_state_def
      Let_def split: option.splits)

lemma frame_step_raise:
  "model_output fe = None \<Longrightarrow>
     frame_step svc fe s = (None, s\<lparr>audio_buffer := drop 1024 (audio_buffer s)\<rparr>)"
  by (simp add: frame_step_def)

lemma frame_step_score:
  "model_output fe = Some prob \<Longrightarrow>
     frame_step svc fe s =
       (Some (prob, snd (classify_frame svc fe prob (s\<lparr>audio_buffer := drop 1024 (audio_buffer s)\<rparr>))),
        fst (classify_frame svc fe prob (s\<lparr>audio_buffer := drop 1024 (audio_buffer s)\<rparr>)))"
  by (simp add: frame_step_def split: prod.splits)

lemma drain_done:
  "length (audio_buffer s) < 1024 \<Longrightarrow> drain svc env k chv sp s = (Inr (chv, sp), s)"
  by (simp add: drain.simps [of svc env k chv sp s])

lemma drain_step:
  "1024 \<le> length (audio_buffer s) \<Longrightarrow>
     drain svc env k chv sp s =
       (case model_output (env k) of
          None \<Rightarrow> (Inl HTTPException500, s\<lparr>audio_buffer := drop 1024 (audio_buffer s)\<rparr>)
        | Some prob \<Rightarrow>
            drain svc env (Suc k)
              (snd (classify_frame svc (env k) prob (s\<lparr>audio_buffer := drop 1024 (audio_buffer s)\<rparr>)))
              (case sp of None \<Rightarrow> Some prob | Some p \<Rightarrow> Some p)
              (fst (classify_frame svc (env k) prob (s\<lparr>audio_buffer := drop 1024 (audio_buffer s)\<rparr>))))"
  by (simp add: drain.simps [of svc env k chv sp s] frame_step_raise frame_step_score
      split: option.splits)

text \<open>The induction that follows the loop: it has ended, the model raises, or it goes on.\<close>

lemma drain_cases_induct [case_names ended raised scored]:
  assumes "\<And>svc env k chv sp s. length (audio_buffer s) < 1024 \<Longrightarrow> P svc env k chv sp s"
    and "\<And>svc env k chv sp s. 1024 \<le> length (audio_buffer s) \<Longrightarrow> model_output (env k) = None
           \<Longrightarrow> P svc env k chv sp s"
    and "\<And>svc env k chv sp s prob. 1024 \<le> length (audio_buffer s)
           \<Longrightarrow> model_output (env k) = Some prob
           \<Longrightarrow> P svc env (Suc k)
                 (snd (classify_frame svc (env k) prob (s\<lparr>audio_buffer := drop 1024 (audio_buffer s)\<rparr>)))
                 (case sp of None \<Rightarrow> Some prob | Some p \<Rightarrow> Some p)
                 (fst (classify_frame svc (env k) prob (s\<lparr>audio_buffer := drop 1024 (audio_buffer s)\<rparr>)))
           \<Longrightarrow> P svc env k chv sp s"
  shows "P svc env k chv sp s"
proof (induction svc env k chv sp s rule: drain.induct)
  case (1 svc env k chv sp s)
  show ?case
  proof (cases "1024 \<le> length (audio_buffer s)")
    case False
    then show ?thesis by (simp add: assms(1))
  next
    case True
    show ?thesis
    proof (cases "model_output (env k)")
      case None
      with True show ?thesis by (rule assms(2) [of s env k])
    next
      case (Some prob)
      from True have "512 * 2 \<le> length (audio_buffer s)" by simp
      from "1.IH" [OF this frame_step_score [OF Some, symmetric] refl refl]
      show ?thesis by (rule assms(3) [of s env k prob, OF True Some])
    qed
  qed
qed

lemma process_audio_session:
  "process_audio svc ss audio_data audio_format cenv session_id =
     (fst (process_session svc audio_data audio_format cenv (snd (get_or_create_session ss session_id))),
      ss(session_id \<mapsto>
        snd (process_session svc audio_data audio_format cenv (snd (get_or_create_session ss session_id)))))"
  by (simp add: process_audio_def get_or_create_session_def split: prod.splits option.splits)

lemma process_session_pcm:
  "process_session svc audio_data audio_format cenv s =
     (case pcm_input audio_data audio_format cenv of
        None \<Rightarrow> (Inr \<lparr>r_have_voice = have_voice s, r_voice_stop = False, r_speech_prob = None\<rparr>, s)
      | Some pcm \<Rightarrow> run_frames svc (frames cenv) (s\<lparr>audio_buffer := audio_buffer s @ pcm\<rparr>))"
  by (simp add: process_session_def pcm_input_def split: decode_outcome.splits)

lemmas eval_simps =
  process_audio_session get_or_create_session_def process_session_def run_frames_def
  drain_done drain_step classify_frame_def dual_threshold_def window_append_def
  window_vote_def check_voice_stop_def update_state_def default_service_def new_session_def
  is_opus_def lower_def lower_char_def clocked_def raising_at_def Let_def

subsection \<open>Invariants of the loop\<close>

lemma classify_frame_stop:
  "snd (classify_frame svc fe prob s) \<Longrightarrow> \<not> voice_stop (fst (classify_frame svc fe prob s))"
  by (simp add: classify_frame_def update_state_def Let_def)

lemma classify_frame_buffer:
  "audio_buffer (fst (classify_frame svc fe prob s)) = audio_buffer s"
  by (simp add: classify_frame_def check_voice_stop_def update_state_def Let_def)

lemma drain_buffer:
  "drain svc env k chv sp s = (Inr x, s') \<Longrightarrow> length (audio_buffer s') < 1024"
proof (induction svc env k chv sp s rule: drain_cases_induct)
  case (ended svc env k chv sp s)
  then show ?case by (simp add: drain_done)
next
  case (raised svc env k chv sp s)
  then show ?case by (simp add: drain_step)
next
  case (scored svc env k chv sp s prob)
  then show ?case by (simp add: drain_step)
qed

text \<open>
  When the loop ends with \<^verbatim>\<open>client_have_voice\<close> true, the last iteration has
  cleared \<^verbatim>\<open>voice_stop\<close>.
\<close>

lemma drain_candidate:
  "drain svc env k chv sp s = (Inr (chv', sp'), s') \<Longrightarrow> (chv \<Longrightarrow> \<not> voice_stop s) \<Longrightarrow> chv'
     \<Longrightarrow> \<not> voice_stop s'"
proof (induction svc env k chv sp s rule: drain_cases_induct)
  case (ended svc env k chv sp s)
  then show ?case by (simp add: drain_done)
next
  case (raised svc env k chv sp s)
  then show ?case by (simp add: drain_step)
next
  case (scored svc env k chv sp s prob)
  from scored.prems(1) scored.hyps have
    "drain svc env (Suc k)
       (snd (classify_frame svc (env k) prob (s\<lparr>audio_buffer := drop 1024 (audio_buffer s)\<rparr>)))
       (case sp of None \<Rightarrow> Some prob | Some p \<Rightarrow> Some p)
       (fst (classify_frame svc (env k) prob (s\<lparr>audio_buffer := drop 1024 (audio_buffer s)\<rparr>)))
     = (Inr (chv', sp'), s')"
    by (simp add: drain_step)
  from scored.IH [OF this classify_frame_stop scored.prems(3)] show ?case .
qed

lemma drain_returns:
  "(\<And>i. model_output (env i) \<noteq> None) \<Longrightarrow> \<exists>x s'. drain svc env k chv sp s = (Inr x, s')"
proof (induction svc env k chv sp s rule: drain_cases_induct)
  case (ended svc env k chv sp s)
  then show ?case by (simp add: drain_done)
next
  case (raised svc env k chv sp s)
  then show ?case by simp
next
  case (scored svc env k chv sp s prob)
  then show ?case by (simp add: drain_step)
qed

lemma run_frames_response:
  assumes "run_frames svc env s = (Inr r, s')"
  shows "\<not> (r_have_voice r \<and> r_voice_stop r)" and "\<not> voice_stop s'"
    and "length (audio_buffer s') < 1024"
  using assms drain_candidate [of svc env 0 False None s] drain_buffer [of svc env 0 False None s]
  by (auto simp: run_frames_def Let_def split: prod.splits sum.splits if_splits)

lemma run_frames_no_frame:
  "length (audio_buffer s) < 1024 \<Longrightarrow>
     run_frames svc env s =
       (Inr \<lparr>r_have_voice = False, r_voice_stop = voice_stop s, r_speech_prob = None\<rparr>,
        s\<lparr>voice_stop := False\<rparr>)"
  by (cases "voice_stop s") (simp_all add: run_frames_def drain_done Let_def)

subsection \<open>The two flags of a response\<close>



subsection \<open>Classifying and voting on one frame\<close>

lemma frame_step_decision:
  assumes "model_output fe = Some p"
  shows "last_is_voice (snd (frame_step svc fe s)) = dual_threshold svc p (last_is_voice s)"
    and "voice_window (snd (frame_step svc fe s))
           = window_append (voice_window s) (dual_threshold svc p (last_is_voice s))"
    and "have_voice (snd (frame_step svc fe s))
           = window_vote svc (voice_window (snd (frame_step svc fe s)))"
    and "fst (frame_step svc fe s)
           = Some (p, window_vote svc (voice_window (snd (frame_step svc fe s))))"
  using assms
  by (simp_all add: frame_step_score classify_frame_def check_voice_stop_def update_state_def Let_def)

lemma window_append_last: "last (window_append w d) = d"
  by (simp add: window_append_def Let_def)

text \<open>
  C3. With the low threshold below the high one, the decision of a scored frame (stored in
  \<^verbatim>\<open>last_is_voice\<close> and appended to the window) is true when the probability is at
  least the high threshold, false when it is at most the low threshold, and the previous
  decision of the session in between; for a session that is fresh but for its buffered
  bytes the decision in between is false. The defaults are 0.5 and 0.2.
\<close>

theorem hysteresis_classifier:
  assumes "vad_threshold_low svc < vad_threshold svc"
    and "model_output fe = Some p"
  shows "(vad_threshold svc \<le> p \<longrightarrow> last_is_voice (snd (frame_step svc fe s)))
     \<and> (p \<le> vad_threshold_low svc \<longrightarrow> \<not> last_is_voice (snd (frame_step svc fe s)))
     \<and> (vad_threshold_low svc < p \<and> p < vad_threshold svc \<longrightarrow>
           last_is_voice (snd (frame_step svc fe s)) = last_is_voice s)
     \<and> (vad_threshold_low svc < p \<and> p < vad_threshold svc \<longrightarrow>
           \<not> last_is_voice (snd (frame_step svc fe (new_session\<lparr>audio_buffer := buf\<rparr>))))
     \<and> last (voice_window (snd (frame_step svc fe s))) = last_is_voice (snd (frame_step svc fe s))
     \<and> vad_threshold default_service = 0.5 \<and> vad_threshold_low default_service = 0.2"
  using assms
  by (simp add: frame_step_decision window_append_last dual_threshold_def new_session_def
      default_service_def)

text \<open>
  The default service on the probabilities 0.9 and 0.1, and on 0.3 after a true decision
  and in a fresh session.
\<close>

theorem hysteresis_classifier_witness:
  "last_is_voice (snd (frame_step default_service
        \<lparr>model_output = Some 0.9, time_check = 0, time_update = 0\<rparr> new_session))
   \<and> \<not> last_is_voice (snd (frame_step default_service
        \<lparr>model_output = Some 0.1, time_check = 0, time_update = 0\<rparr> voiced_session))
   \<and> last_is_voice (snd (frame_step default_service
        \<lparr>model_output = Some 0.3, time_check = 0, time_update = 0\<rparr>
        (voiced_session\<lparr>last_is_voice := True\<rparr>)))
   \<and> \<not> last_is_voice (snd (frame_step default_service
        \<lparr>model_output = Some 0.3, time_check = 0, time_update = 0\<rparr>
        (new_session\<lparr>audio_buffer := replicate 1024 0\<rparr>)))"
proof -
  have lt: "vad_threshold_low default_service < vad_threshold default_service"
    by (simp add: default_service_def)
  note h = hysteresis_classifier [OF lt]
  show ?thesis
    using h [of "\<lparr>model_output = Some 0.9, time_check = 0, time_update = 0\<rparr>" "0.9" new_session "[]"]
      h [of "\<lparr>model_output = Some 0.1, time_check = 0, time_update = 0\<rparr>" "0.1" voiced_session "[]"]
      h [of "\<lparr>model_output = Some 0.3, time_check = 0, time_update = 0\<rparr>" "0.3"
            "voiced_session\<lparr>last_is_voice := True\<rparr>" "replicate 1024 0"]
    by (simp add: default_service_def)
qed

lemma window_append_length: "length (window_append w d) \<le> 10"
  by (simp add: window_append_def Let_def)

lemma window_append_suffix:
  "window_append w d = drop (Suc (length w) - 10) (w @ [d])"
  by (simp add: window_append_def Let_def)

text \<open>
  C4. After an iteration of the loop in which the model answered, the window holds at
  most ten entries, namely the last ten of the old window followed by the new decision,
  and \<^verbatim>\<open>client_have_voice\<close>, which is also the stored \<^verbatim>\<open>have_voice\<close>, is true
  exactly when the window holds at least \<^verbatim>\<open>frame_window_threshold\<close> true entries;
  the default threshold is 3.
\<close>

theorem voting_window:
  assumes "frame_step svc fe s = (Some (prob, client_have_voice), s')"
  shows "length (voice_window s') \<le> 10
     \<and> voice_window s' = drop (Suc (length (voice_window s)) - 10) (voice_window s @ [last_is_voice s'])
     \<and> client_have_voice = (frame_window_threshold svc \<le> int (count_list (voice_window s') True))
     \<and> have_voice s' = client_have_voice
     \<and> frame_window_threshold default_service = 3"
proof -
  from assms have m: "model_output fe = Some prob"
    by (cases "model_output fe") (simp_all add: frame_step_raise frame_step_score)
  from assms have s': "s' = snd (frame_step svc fe s)" by simp
  from assms have "fst (frame_step svc fe s) = Some (prob, client_have_voice)"
    by simp
  with frame_step_decision(4) [OF m, of svc s]
  have c: "client_have_voice = window_vote svc (voice_window s')"
    by (simp add: s')
  have w: "voice_window s' = window_append (voice_window s) (last_is_voice s')"
    by (simp add: s' frame_step_decision [OF m])
  have 1: "length (voice_window s') \<le> 10"
    by (subst w) (rule window_append_length)
  have 2: "voice_window s' = drop (Suc (length (voice_window s)) - 10) (voice_window s @ [last_is_voice s'])"
    by (subst w) (rule window_append_suffix)
  have 3: "client_have_voice = (frame_window_threshold svc \<le> int (count_list (voice_window s') True))"
    by (simp add: c window_vote_def)
  have 4: "have_voice s' = client_have_voice"
    by (simp add: c) (simp add: s' frame_step_decision(3) [OF m])
  have 5: "frame_window_threshold default_service = 3"
    by (simp add: default_service_def)
  from 1 2 3 4 5 show ?thesis
    by blast
qed

text \<open>
  A frame of silence arrives when the window is full: the oldest vote leaves, two true
  votes remain, and the vote is lost.
\<close>

theorem voting_window_witness:
  "frame_step default_service \<lparr>model_output = Some 0, time_check = 1032, time_update = 1032\<rparr>
       (voiced_session\<lparr>audio_buffer := replicate 1024 0\<rparr>)
     = (Some (0, False),
        voiced_session\<lparr>voice_window := [True, True, False, False, False, False, False, False, False, False],
                        have_voice := False\<rparr>)
   \<and> length [True, True, False, False, False, False, False, False, False, False] \<le> (10 :: nat)
   \<and> \<not> (3 \<le> int (count_list [True, True, False, False, False, False, False, False, False, False] True))"
proof -
  have step: "frame_step default_service \<lparr>model_output = Some 0, time_check = 1032, time_update = 1032\<rparr>
       (voiced_session\<lparr>audio_buffer := replicate 1024 0\<rparr>)
     = (Some (0, False),
        voiced_session\<lparr>voice_window := [True, True, False, False, False, False, False, False, False, False],
                        have_voice := False\<rparr>)"
    by (simp add: frame_step_score eval_simps voiced_session_def)
  from voting_window [OF step] step show ?thesis
    by (simp add: voiced_session_def default_service_def)
qed

subsection \<open>The buffer after a call, and a failed decode\<close>

text \<open>
  C5, as stated, fails for a call that raises: a fresh session receives three frames of
  PCM and the model raises on the first; the call fails and 2048 bytes stay buffered.
\<close>

theorem buffer_drained_counterexample:
  "fst (process_audio default_service Map.empty (replicate 3072 0) ''pcm''
         (raising_at 0 silence 1000) ''a'') = Inl HTTPException500
   \<and> \<not> length (audio_buffer (the (snd (process_audio default_service Map.empty (replicate 3072 0) ''pcm''
         (raising_at 0 silence 1000) ''a'') ''a''))) < 1024"
  by (simp add: eval_simps)

text \<open>
  C5, amended. When a call returns a response, the session is in the store, and its
  buffer holds fewer than 1024 bytes if the call reached the loop (raw PCM, or a packet
  that was decoded); after a failed decode the session is the one the call found.
\<close>

theorem buffer_drained:
  assumes "process_audio svc ss audio_data audio_format cenv session_id = (Inr r, ss')"
  shows "\<exists>s'. ss' session_id = Some s' \<and>
           (case pcm_input audio_data audio_format cenv of
              Some pcm \<Rightarrow> length (audio_buffer s') < 1024
            | None \<Rightarrow> s' = snd (get_or_create_session ss session_id))"
proof -
  let ?s = "snd (get_or_create_session ss session_id)"
  let ?res = "process_session svc audio_data audio_format cenv ?s"
  from assms have res: "fst ?res = Inr r" and ss': "ss' = ss(session_id \<mapsto> snd ?res)"
    by (simp_all add: process_audio_session)
  show ?thesis
  proof (cases "pcm_input audio_data audio_format cenv")
    case None
    then show ?thesis by (simp add: ss' process_session_pcm)
  next
    case (Some pcm)
    with res have "run_frames svc (frames cenv) (?s\<lparr>audio_buffer := audio_buffer ?s @ pcm\<rparr>)
        = (Inr r, snd ?res)"
      by (simp add: process_session_pcm prod_eq_iff)
    then have "length (audio_buffer (snd ?res)) < 1024"
      by (rule run_frames_response(3))
    with Some show ?thesis by (simp add: ss')
  qed
qed

text \<open>
  3000 bytes of silence for a fresh session: two frames are drained and 952 bytes stay.
\<close>

theorem buffer_drained_witness:
  "process_audio default_service Map.empty (replicate 3000 0) ''pcm'' (clocked silence 1000) ''a''
     = (Inr \<lparr>r_have_voice = False, r_voice_stop = False, r_speech_prob = Some 0\<rparr>,
        [''a'' \<mapsto> new_session\<lparr>audio_buffer := replicate 952 0, voice_window := [False, False]\<rparr>])
   \<and> length (audio_buffer (new_session\<lparr>audio_buffer := replicate 952 0, voice_window := [False, False]\<rparr>)) < 1024"
proof -
  have call: "process_audio default_service Map.empty (replicate 3000 0) ''pcm'' (clocked silence 1000) ''a''
     = (Inr \<lparr>r_have_voice = False, r_voice_stop = False, r_speech_prob = Some 0\<rparr>,
        [''a'' \<mapsto> new_session\<lparr>audio_buffer := replicate 952 0, voice_window := [False, False]\<rparr>])"
    by (simp add: eval_simps silence_def)
  from buffer_drained [OF call] call show ?thesis
    by (simp add: new_session_def)
qed

lemma voiced_session_reached:
  "process_audio default_service Map.empty (replicate 10240 0) ''pcm''
       (clocked speech_then_silence 1000) ''a''
     = (Inr \<lparr>r_have_voice = True, r_voice_stop = False, r_speech_prob = Some 0.9\<rparr>,
        [''a'' \<mapsto> voiced_session])"
  by (simp add: eval_simps voiced_session_def speech_then_silence_def)

lemma pending_session_reached:
  "process_audio default_service [''a'' \<mapsto> voiced_session] (replicate 2048 0) ''pcm''
       (raising_at 1 silence 2500) ''a''
     = (Inl HTTPException500, [''a'' \<mapsto> pending_session])"
  by (simp add: eval_simps voiced_session_def pending_session_def silence_def)

text \<open>
  C6. A call with the format opus (in any case) whose decoder cannot be created or
  raises \<^verbatim>\<open>OpusError\<close> returns a response with the \<^verbatim>\<open>have_voice\<close> of the session
  as it was, \<^verbatim>\<open>voice_stop\<close> false and no probability, and leaves the session as
  \<^verbatim>\<open>_get_or_create_session\<close> returned it: an existing session, and with it the whole
  store, is unchanged.
\<close>

theorem decode_failure_atomic:
  assumes "is_opus audio_format"
    and "decoder cenv = OpusError \<or> decoder cenv = DecoderInitError"
    and "get_or_create_session ss session_id = (ss', s)"
  shows "process_audio svc ss audio_data audio_format cenv session_id
       = (Inr \<lparr>r_have_voice = have_voice s, r_voice_stop = False, r_speech_prob = None\<rparr>, ss')
     \<and> ss' session_id = Some s
     \<and> (ss session_id \<noteq> None \<longrightarrow> ss' = ss)"
  using assms
  by (auto simp: process_audio_session process_session_def get_or_create_session_def
      split: option.splits)

text \<open>
  A failed decode for the session with a pending \<^verbatim>\<open>voice_stop\<close>, and for the session
  with \<^verbatim>\<open>have_voice\<close> true.
\<close>

theorem decode_failure_atomic_witness:
  "process_audio default_service [''a'' \<mapsto> pending_session] [1, 2, 3] ''Opus''
       (clocked silence 3000) ''a''
     = (Inr \<lparr>r_have_voice = False, r_voice_stop = False, r_speech_prob = None\<rparr>,
        [''a'' \<mapsto> pending_session])
   \<and> voice_stop pending_session
   \<and> process_audio default_service [''a'' \<mapsto> voiced_session] [1, 2, 3] ''opus''
       (clocked silence 3000) ''a''
     = (Inr \<lparr>r_have_voice = True, r_voice_stop = False, r_speech_prob = None\<rparr>,
        [''a'' \<mapsto> voiced_session])"
proof -
  have opus: "is_opus ''Opus''" "is_opus ''opus''"
    by code_simp+
  have dec: "decoder (clocked silence 3000) = OpusError \<or> decoder (clocked silence 3000) = DecoderInitError"
    by (simp add: clocked_def)
  have p: "get_or_create_session [''a'' \<mapsto> pending_session] ''a'' = ([''a'' \<mapsto> pending_session], pending_session)"
    and v: "get_or_create_session [''a'' \<mapsto> voiced_session] ''a'' = ([''a'' \<mapsto> voiced_session], voiced_session)"
    by (simp_all add: get_or_create_session_def)
  from decode_failure_atomic [OF opus(1) dec p, of default_service "[1, 2, 3]"]
    decode_failure_atomic [OF opus(2) dec v, of default_service "[1, 2, 3]"]
  show ?thesis
    by (simp add: pending_session_def voiced_session_def)
qed

subsection \<open>Calls that drain no frame, and the format\<close>




text \<open>
  C8. A call that returns \<^verbatim>\<open>voice_stop\<close> true leaves the stored flag false, and a
  call for the same session that follows it and drains no frame (its decode fails, or
  the buffered and the new bytes stay below 1024) returns \<^verbatim>\<open>voice_stop\<close> false.
\<close>

theorem voice_stop_one_shot:
  assumes "process_audio svc ss audio_data audio_format cenv session_id = (Inr r, ss')"
    and "r_voice_stop r"
    and "\<forall>s' pcm. ss' session_id = Some s' \<and> pcm_input audio_data' audio_format' cenv' = Some pcm
            \<longrightarrow> length (audio_buffer s') + length pcm < 1024"
  shows "(\<exists>s'. ss' session_id = Some s' \<and> \<not> voice_stop s')
     \<and> (\<exists>r' ss''. process_audio svc ss' audio_data' audio_format' cenv' session_id = (Inr r', ss'')
            \<and> \<not> r_voice_stop r')"
proof -
  let ?s = "snd (get_or_create_session ss session_id)"
  let ?res = "process_session svc audio_data audio_format cenv ?s"
  from assms(1) have res: "fst ?res = Inr r" and ss': "ss' = ss(session_id \<mapsto> snd ?res)"
    by (simp_all add: process_audio_session)
  from res assms(2) obtain pcm where pcm: "pcm_input audio_data audio_format cenv = Some pcm"
    by (cases "pcm_input audio_data audio_format cenv") (auto simp: process_session_pcm)
  with res have "run_frames svc (frames cenv) (?s\<lparr>audio_buffer := audio_buffer ?s @ pcm\<rparr>)
      = (Inr r, snd ?res)"
    by (simp add: process_session_pcm prod_eq_iff)
  then have cleared: "\<not> voice_stop (snd ?res)"
    by (rule run_frames_response(2))
  have goc: "snd (get_or_create_session ss' session_id) = snd ?res"
    by (simp add: ss' get_or_create_session_def)
  have second: "\<exists>r' ss''. process_audio svc ss' audio_data' audio_format' cenv' session_id = (Inr r', ss'')
            \<and> \<not> r_voice_stop r'"
  proof (cases "pcm_input audio_data' audio_format' cenv'")
    case None
    then show ?thesis
      by (simp add: process_audio_session process_session_pcm)
  next
    case (Some pcm')
    with assms(3) have "length (audio_buffer (snd ?res)) + length pcm' < 1024"
      by (simp add: ss')
    with Some goc cleared show ?thesis
      by (simp add: process_audio_session process_session_pcm run_frames_no_frame)
  qed
  from cleared second show ?thesis
    by (simp add: ss')
qed


text \<open>
  The end of speech is reported once: by the call that brings the frame of silence at
  time 2500, and not by the empty call after it.
\<close>

theorem voice_stop_one_shot_witness:
  "process_audio default_service [''a'' \<mapsto> voiced_session] (replicate 1024 0) ''pcm''
       (clocked silence 2500) ''a''
     = (Inr \<lparr>r_have_voice = False, r_voice_stop = True, r_speech_prob = Some 0\<rparr>,
        [''a'' \<mapsto> voiced_session\<lparr>
           voice_window := [True, True, False, False, False, False, False, False, False, False],
           have_voice := False\<rparr>])
   \<and> fst (process_audio default_service
          [''a'' \<mapsto> voiced_session\<lparr>
             voice_window := [True, True, False, False, False, False, False, False, False, False],
             have_voice := False\<rparr>] [] ''pcm'' (clocked silence 2501) ''a'')
     = Inr \<lparr>r_have_voice = False, r_voice_stop = False, r_speech_prob = None\<rparr>"
proof -
  let ?ss' = "[''a'' \<mapsto> voiced_session\<lparr>
           voice_window := [True, True, False, False, False, False, False, False, False, False],
           have_voice := False\<rparr>]"
  have first: "process_audio default_service [''a'' \<mapsto> voiced_session] (replicate 1024 0) ''pcm''
       (clocked silence 2500) ''a''
     = (Inr \<lparr>r_have_voice = False, r_voice_stop = True, r_speech_prob = Some 0\<rparr>, ?ss')"
    by (simp add: eval_simps voiced_session_def silence_def)
  have stop: "r_voice_stop \<lparr>r_have_voice = False, r_voice_stop = True, r_speech_prob = Some 0\<rparr>"
    by simp
  have none: "\<forall>s' pcm. ?ss' ''a'' = Some s' \<and> pcm_input [] ''pcm'' (clocked silence 2501) = Some pcm
            \<longrightarrow> length (audio_buffer s') + length pcm < 1024"
    by (simp add: pcm_input_def is_opus_def lower_def voiced_session_def)
  from voice_stop_one_shot [OF first stop none] first show ?thesis
    by (auto simp: eval_simps voiced_session_def)
qed

lemma lower_char_eq_iff:
  assumes lo: "(of_char l :: nat) = of_char u + 32"
    and up: "65 \<le> (of_char u :: nat)" "(of_char u :: nat) \<le> 90"
  shows "lower_char c = l \<longleftrightarrow> c = l \<or> c = u"
proof (cases "65 \<le> (of_char c :: nat) \<and> (of_char c :: nat) \<le> 90")
  case True
  then have low: "lower_char c = char_of (of_char c + (32 :: nat))"
    by (simp add: lower_char_def)
  have "(of_char (lower_char c) :: nat) = of_char c + 32"
    using True by (simp add: low)
  then have "lower_char c = l \<longleftrightarrow> (of_char c :: nat) = of_char u"
    using lo by (metis add_right_cancel of_char_eq_iff)
  moreover have "c \<noteq> l"
    using True lo up by auto
  ultimately show ?thesis
    by simp
next
  case False
  then have "lower_char c = c"
    by (auto simp add: lower_char_def)
  moreover have "c \<noteq> u"
    using False up by auto
  ultimately show ?thesis
    by simp
qed

lemma lower_char_o: "lower_char c = CHR ''o'' \<longleftrightarrow> c = CHR ''o'' \<or> c = CHR ''O''"
  using lower_char_eq_iff [of "CHR ''o''" "CHR ''O''" c] by simp

lemma lower_char_p: "lower_char c = CHR ''p'' \<longleftrightarrow> c = CHR ''p'' \<or> c = CHR ''P''"
  using lower_char_eq_iff [of "CHR ''p''" "CHR ''P''" c] by simp

lemma lower_char_u: "lower_char c = CHR ''u'' \<longleftrightarrow> c = CHR ''u'' \<or> c = CHR ''U''"
  using lower_char_eq_iff [of "CHR ''u''" "CHR ''U''" c] by simp

lemma lower_char_s: "lower_char c = CHR ''s'' \<longleftrightarrow> c = CHR ''s'' \<or> c = CHR ''S''"
  using lower_char_eq_iff [of "CHR ''s''" "CHR ''S''" c] by simp

lemma is_opus_iff:
  "is_opus f \<longleftrightarrow>
     (\<exists>a b c d. f = [a, b, c, d] \<and> a \<in> {CHR ''o'', CHR ''O''} \<and> b \<in> {CHR ''p'', CHR ''P''}
        \<and> c \<in> {CHR ''u'', CHR ''U''} \<and> d \<in> {CHR ''s'', CHR ''S''})"
proof -
  have "is_opus f \<longleftrightarrow>
     (\<exists>a b c d. f = [a, b, c, d] \<and> lower_char a = CHR ''o'' \<and> lower_char b = CHR ''p''
        \<and> lower_char c = CHR ''u'' \<and> lower_char d = CHR ''s'')"
    unfolding is_opus_def lower_def by (auto simp: map_eq_Cons_conv)
  then show ?thesis
    by (simp add: lower_char_o lower_char_p lower_char_u lower_char_s)
qed

lemma run_frames_returns:
  assumes "\<And>i. model_output (env i) \<noteq> None"
  shows "\<exists>r s'. run_frames svc env s = (Inr r, s')"
proof -
  from drain_returns [of env svc 0 False None s, OF assms]
  obtain x s' where "drain svc env 0 False None s = (Inr x, s')"
    by blast
  then show ?thesis
    by (cases x) (simp add: run_frames_def Let_def)
qed

text \<open>
  C10. The format is opus exactly when it is one of the sixteen spellings of that word
  in upper and lower case. Such a format sends the input to the decoder: the decoded
  bytes, not the input, are appended to the buffer before the loop runs, a failed decode
  returns at once, and the call is the one that the format opus in lower case makes.
  Every other format makes the call append the input bytes to the buffer and run the
  loop, as the format pcm does whatever the decoder would have done, and such a call
  returns a response whenever the model does not raise: the format itself is never
  rejected.
\<close>

theorem format_dispatch:
  "(is_opus audio_format \<longleftrightarrow>
      (\<exists>a b c d. audio_format = [a, b, c, d] \<and> a \<in> {CHR ''o'', CHR ''O''}
         \<and> b \<in> {CHR ''p'', CHR ''P''} \<and> c \<in> {CHR ''u'', CHR ''U''} \<and> d \<in> {CHR ''s'', CHR ''S''}))
   \<and> (is_opus audio_format \<longrightarrow>
        process_session svc audio_data audio_format cenv s
          = (case decoder cenv of
               DecoderInitError \<Rightarrow>
                 (Inr \<lparr>r_have_voice = have_voice s, r_voice_stop = False, r_speech_prob = None\<rparr>, s)
             | OpusError \<Rightarrow>
                 (Inr \<lparr>r_have_voice = have_voice s, r_voice_stop = False, r_speech_prob = None\<rparr>, s)
             | Decoded pcm_data \<Rightarrow>
                 run_frames svc (frames cenv) (s\<lparr>audio_buffer := audio_buffer s @ pcm_data\<rparr>))
        \<and> process_audio svc ss audio_data audio_format cenv session_id
          = process_audio svc ss audio_data ''opus'' cenv session_id)
   \<and> (\<not> is_opus audio_format \<longrightarrow>
        process_session svc audio_data audio_format cenv s
          = run_frames svc (frames cenv) (s\<lparr>audio_buffer := audio_buffer s @ audio_data\<rparr>)
        \<and> process_audio svc ss audio_data audio_format cenv session_id
          = process_audio svc ss audio_data ''pcm'' (cenv\<lparr>decoder := d\<rparr>) session_id)
   \<and> (\<not> is_opus audio_format \<and> (\<forall>k. model_output (frames cenv k) \<noteq> None) \<longrightarrow>
        (\<exists>r ss'. process_audio svc ss audio_data audio_format cenv session_id = (Inr r, ss')))"
proof (intro conjI impI)
  show "is_opus audio_format \<longleftrightarrow>
      (\<exists>a b c d. audio_format = [a, b, c, d] \<and> a \<in> {CHR ''o'', CHR ''O''}
         \<and> b \<in> {CHR ''p'', CHR ''P''} \<and> c \<in> {CHR ''u'', CHR ''U''} \<and> d \<in> {CHR ''s'', CHR ''S''})"
    by (rule is_opus_iff)
next
  assume "is_opus audio_format"
  then show "process_session svc audio_data audio_format cenv s
          = (case decoder cenv of
               DecoderInitError \<Rightarrow>
                 (Inr \<lparr>r_have_voice = have_voice s, r_voice_stop = False, r_speech_prob = None\<rparr>, s)
             | OpusError \<Rightarrow>
                 (Inr \<lparr>r_have_voice = have_voice s, r_voice_stop = False, r_speech_prob = None\<rparr>, s)
             | Decoded pcm_data \<Rightarrow>
                 run_frames svc (frames cenv) (s\<lparr>audio_buffer := audio_buffer s @ pcm_data\<rparr>))"
    by (simp add: process_session_def)
next
  have opus: "is_opus ''opus''"
    by code_simp
  assume "is_opus audio_format"
  with opus show "process_audio svc ss audio_data audio_format cenv session_id
          = process_audio svc ss audio_data ''opus'' cenv session_id"
    by (simp add: process_audio_session process_session_def)
next
  assume "\<not> is_opus audio_format"
  then show "process_session svc audio_data audio_format cenv s
          = run_frames svc (frames cenv) (s\<lparr>audio_buffer := audio_buffer s @ audio_data\<rparr>)"
    by (simp add: process_session_def)
next
  have pcm: "\<not> is_opus ''pcm''"
    by (simp add: is_opus_def lower_def)
  assume "\<not> is_opus audio_format"
  with pcm show "process_audio svc ss audio_data audio_format cenv session_id
          = process_audio svc ss audio_data ''pcm'' (cenv\<lparr>decoder := d\<rparr>) session_id"
    by (simp add: process_audio_session process_session_def)
next
  assume a: "\<not> is_opus audio_format \<and> (\<forall>k. model_output (frames cenv k) \<noteq> None)"
  then have "\<And>i. model_output (frames cenv i) \<noteq> None"
    by simp
  from run_frames_returns [of "frames cenv", OF this] a
  show "\<exists>r ss'. process_audio svc ss audio_data audio_format cenv session_id = (Inr r, ss')"
    by (simp add: process_audio_session process_session_def) (metis fst_conv)
qed

text \<open>
  The formats wav and opus followed by a space are not opus, OpUs is; 1030 bytes sent as
  wav are buffered and the frame among them is scored. A packet of three bytes sent as
  OPUS goes to the decoder: the 1920 bytes it decodes to are buffered, not the packet,
  and when the decoder raises nothing is buffered.
\<close>

theorem format_dispatch_witness:
  "\<not> is_opus ''wav'' \<and> \<not> is_opus ''opus '' \<and> is_opus ''OpUs'' \<and> is_opus ''OPUS''
   \<and> process_audio default_service Map.empty (replicate 1030 0) ''wav'' (clocked speech 1000) ''a''
       = (Inr \<lparr>r_have_voice = False, r_voice_stop = False, r_speech_prob = Some 0.9\<rparr>,
          [''a'' \<mapsto> new_session\<lparr>audio_buffer := replicate 6 0, voice_window := [True],
                                  last_is_voice := True\<rparr>])
   \<and> process_audio default_service Map.empty [1, 2, 3] ''OPUS''
         ((clocked speech 1000)\<lparr>decoder := Decoded (replicate 1920 0)\<rparr>) ''a''
       = (Inr \<lparr>r_have_voice = False, r_voice_stop = False, r_speech_prob = Some 0.9\<rparr>,
          [''a'' \<mapsto> new_session\<lparr>audio_buffer := replicate 896 0, voice_window := [True],
                                  last_is_voice := True\<rparr>])
   \<and> process_audio default_service Map.empty [1, 2, 3] ''OPUS'' (clocked speech 1000) ''a''
       = (Inr \<lparr>r_have_voice = False, r_voice_stop = False, r_speech_prob = None\<rparr>,
          [''a'' \<mapsto> new_session])"
proof -
  have scored: "\<forall>k. model_output (frames (clocked speech 1000) k) \<noteq> None"
    by (simp add: clocked_def)
  have opus: "is_opus ''opus''"
    by code_simp
  have decoded: "process_audio default_service Map.empty [1, 2, 3] ''opus''
         ((clocked speech 1000)\<lparr>decoder := Decoded (replicate 1920 0)\<rparr>) ''a''
       = (Inr \<lparr>r_have_voice = False, r_voice_stop = False, r_speech_prob = Some 0.9\<rparr>,
          [''a'' \<mapsto> new_session\<lparr>audio_buffer := replicate 896 0, voice_window := [True],
                                  last_is_voice := True\<rparr>])"
    using opus
    by (simp add: process_audio_session get_or_create_session_def process_session_def
        run_frames_def drain_done drain_step classify_frame_def dual_threshold_def
        window_append_def window_vote_def check_voice_stop_def update_state_def
        default_service_def new_session_def clocked_def speech_def Let_def)
  have failed: "process_audio default_service Map.empty [1, 2, 3] ''opus'' (clocked speech 1000) ''a''
       = (Inr \<lparr>r_have_voice = False, r_voice_stop = False, r_speech_prob = None\<rparr>,
          [''a'' \<mapsto> new_session])"
    using opus
    by (simp add: process_audio_session get_or_create_session_def process_session_def
        new_session_def clocked_def)
  from scored decoded failed
    format_dispatch [of "''wav''" default_service "replicate 1030 0" "clocked speech 1000"
      new_session Map.empty "''a''" OpusError]
    format_dispatch [of "''opus ''"] format_dispatch [of "''OpUs''"]
    format_dispatch [of "''OPUS''" default_service "[1, 2, 3]"
      "(clocked speech 1000)\<lparr>decoder := Decoded (replicate 1920 0)\<rparr>" new_session Map.empty "''a''"]
    format_dispatch [of "''OPUS''" default_service "[1, 2, 3]" "clocked speech 1000"
      new_session Map.empty "''a''"]
  show ?thesis
    by (simp add: eval_simps speech_def)
qed

subsection \<open>A model that raises, and the end of speech\<close>

lemma iter_frames_buffer:
  "audio_buffer (iter_frames svc env k n s) = drop (1024 * n) (audio_buffer s)"
  by (induction n arbitrary: k s) (simp_all add: frame_step_buffer add.commute)

lemma drain_fails:
  assumes "\<forall>i<n. model_output (env (k + i)) \<noteq> None"
    and "model_output (env (k + n)) = None"
    and "1024 * Suc n \<le> length (audio_buffer s)"
  shows "drain svc env k chv sp s =
     (Inl HTTPException500,
      (iter_frames svc env k n s)\<lparr>audio_buffer := drop 1024 (audio_buffer (iter_frames svc env k n s))\<rparr>)"
  using assms
proof (induction n arbitrary: k chv sp s)
  case 0
  then show ?case by (simp add: drain_step)
next
  case (Suc n)
  from Suc.prems(1) obtain prob where prob: "model_output (env k) = Some prob"
    by force
  let ?s = "snd (frame_step svc (env k) s)"
  have s: "?s = fst (classify_frame svc (env k) prob (s\<lparr>audio_buffer := drop 1024 (audio_buffer s)\<rparr>))"
    by (simp add: frame_step_score [OF prob])
  have 1: "\<forall>i<n. model_output (env (Suc k + i)) \<noteq> None"
    using Suc.prems(1) by (metis Suc_less_eq add_Suc_right add_Suc)
  have 2: "model_output (env (Suc k + n)) = None"
    using Suc.prems(2) by simp
  have 3: "1024 * Suc n \<le> length (audio_buffer ?s)"
    using Suc.prems(3) by (simp add: frame_step_buffer)
  from Suc.prems(3) have "1024 \<le> length (audio_buffer s)"
    by simp
  then show ?case
    using Suc.IH [OF 1 2 3] by (simp add: drain_step prob s [symmetric])
qed

text \<open>
  When the model answers for the \<open>n\<close> frames that the buffer holds, the loop returns
  the session that \<open>n\<close> iterations of its body produce.
\<close>

lemma drain_succeeds:
  assumes "\<forall>i<n. model_output (env (k + i)) \<noteq> None"
    and "1024 * n \<le> length (audio_buffer s)"
    and "length (audio_buffer s) < 1024 * Suc n"
  shows "snd (drain svc env k chv sp s) = iter_frames svc env k n s"
  using assms
proof (induction n arbitrary: k chv sp s)
  case 0
  then show ?case by (simp add: drain_done)
next
  case (Suc n)
  from Suc.prems(1) obtain prob where prob: "model_output (env k) = Some prob"
    by force
  let ?s = "snd (frame_step svc (env k) s)"
  have s: "?s = fst (classify_frame svc (env k) prob (s\<lparr>audio_buffer := drop 1024 (audio_buffer s)\<rparr>))"
    by (simp add: frame_step_score [OF prob])
  have 1: "\<forall>i<n. model_output (env (Suc k + i)) \<noteq> None"
    using Suc.prems(1) by (metis Suc_less_eq add_Suc_right add_Suc)
  have 2: "1024 * n \<le> length (audio_buffer ?s)"
    using Suc.prems(2) by (simp add: frame_step_buffer)
  have 3: "length (audio_buffer ?s) < 1024 * Suc n"
    using Suc.prems(2,3) by (simp add: frame_step_buffer)
  from Suc.prems(2) have "1024 \<le> length (audio_buffer s)"
    by simp
  then show ?case
    using Suc.IH [OF 1 2 3] by (simp add: drain_step prob s [symmetric])
qed

text \<open>
  C7, as stated, fails on the buffer. A fresh session receives two frames and the model
  raises on the second: the session that the call leaves behind has an empty buffer,
  while the session produced by processing the first frame alone still holds the second
  frame.
\<close>

theorem score_failure_state_counterexample:
  "snd (process_audio default_service Map.empty (replicate 2048 0) ''pcm'' (raising_at 1 silence 1000) ''a'') ''a''
     = Some (new_session\<lparr>voice_window := [False]\<rparr>)
   \<and> iter_frames default_service (frames (raising_at 1 silence 1000)) 0 (Suc 0)
        (new_session\<lparr>audio_buffer := replicate 2048 0\<rparr>)
     = new_session\<lparr>audio_buffer := replicate 1024 0, voice_window := [False]\<rparr>
   \<and> snd (process_audio default_service Map.empty (replicate 2048 0) ''pcm'' (raising_at 1 silence 1000) ''a'') ''a''
     \<noteq> Some (iter_frames default_service (frames (raising_at 1 silence 1000)) 0 (Suc 0)
        (new_session\<lparr>audio_buffer := replicate 2048 0\<rparr>))"
  by (simp add: eval_simps frame_step_score silence_def)

text \<open>
  C7, amended. When the model answers for the first \<open>n\<close> frames of a call and raises on
  the next, the call fails with the processing error, and the session is the one that
  \<open>n\<close> iterations of the loop body produce, except that the frame on which the model
  raised has left the buffer as well: nothing is rolled back, and the failing frame is
  consumed without being classified.
\<close>

theorem score_failure_state:
  assumes "pcm_input audio_data audio_format cenv = Some pcm"
    and "\<forall>i<n. model_output (frames cenv i) \<noteq> None"
    and "model_output (frames cenv n) = None"
    and "snd (get_or_create_session ss session_id) = s"
    and "1024 * Suc n \<le> length (audio_buffer s) + length pcm"
  shows "process_audio svc ss audio_data audio_format cenv session_id
     = (Inl HTTPException500,
        ss(session_id \<mapsto>
          (iter_frames svc (frames cenv) 0 n (s\<lparr>audio_buffer := audio_buffer s @ pcm\<rparr>))
            \<lparr>audio_buffer := drop (1024 * Suc n) (audio_buffer s @ pcm)\<rparr>))"
proof -
  let ?s0 = "s\<lparr>audio_buffer := audio_buffer s @ pcm\<rparr>"
  have "drain svc (frames cenv) 0 False None ?s0 =
     (Inl HTTPException500,
      (iter_frames svc (frames cenv) 0 n ?s0)
        \<lparr>audio_buffer := drop 1024 (audio_buffer (iter_frames svc (frames cenv) 0 n ?s0))\<rparr>)"
    using assms(2,3,5) by (intro drain_fails) simp_all
  moreover have "drop 1024 (audio_buffer (iter_frames svc (frames cenv) 0 n ?s0))
      = drop (1024 * Suc n) (audio_buffer ?s0)"
    unfolding iter_frames_buffer drop_drop by (simp add: add.commute)
  moreover have "audio_buffer ?s0 = audio_buffer s @ pcm"
    by simp
  ultimately have "run_frames svc (frames cenv) ?s0 =
     (Inl HTTPException500,
      (iter_frames svc (frames cenv) 0 n ?s0)\<lparr>audio_buffer := drop (1024 * Suc n) (audio_buffer s @ pcm)\<rparr>)"
    by (simp only: run_frames_def prod.case sum.case)
  with assms(1,4) show ?thesis
    by (simp add: process_audio_session process_session_pcm)
qed

text \<open>
  Three frames for the session with \<^verbatim>\<open>have_voice\<close> true, the model raising on the
  second: the first frame has set \<^verbatim>\<open>voice_stop\<close>, and only the third frame is still
  buffered.
\<close>

theorem score_failure_state_witness:
  "process_audio default_service [''a'' \<mapsto> voiced_session] (replicate 3072 0) ''pcm''
       (raising_at 1 silence 2500) ''a''
     = (Inl HTTPException500, [''a'' \<mapsto> pending_session\<lparr>audio_buffer := replicate 1024 0\<rparr>])"
proof -
  have pcm: "pcm_input (replicate 3072 0) ''pcm'' (raising_at 1 silence 2500) = Some (replicate 3072 0)"
    by (simp add: pcm_input_def is_opus_def lower_def)
  have ok: "\<forall>i<Suc 0. model_output (frames (raising_at 1 silence 2500) i) \<noteq> None"
    by (simp add: raising_at_def)
  have raise: "model_output (frames (raising_at 1 silence 2500) (Suc 0)) = None"
    by (simp add: raising_at_def)
  have s: "snd (get_or_create_session [''a'' \<mapsto> voiced_session] ''a'') = voiced_session"
    by (simp add: get_or_create_session_def)
  have len: "1024 * Suc (Suc 0) \<le> length (audio_buffer voiced_session) + length (replicate 3072 (0 :: byte))"
    by (simp add: voiced_session_def)
  from score_failure_state [OF pcm ok raise s len, of default_service] show ?thesis
    by (simp add: eval_simps frame_step_score voiced_session_def pending_session_def silence_def)
qed

lemma silent_frame_without_voice:
  assumes "\<not> have_voice s" and "\<not> snd (classify_frame svc fe prob s)"
  shows "voice_stop (fst (classify_frame svc fe prob s)) = voice_stop s"
    and "\<not> have_voice (fst (classify_frame svc fe prob s))"
  using assms
  by (simp_all add: classify_frame_def check_voice_stop_def update_state_def Let_def)

text \<open>
  C1 does not hold of the code. \<^verbatim>\<open>have_voice\<close> becomes true in a call at time 1000,
  and one frame of silence follows at time 1500 and another at time 2100. The first of
  them loses the vote 500 ms after the last activity and sets the stored
  \<^verbatim>\<open>have_voice\<close> to false; the second comes 1100 ms after the last activity, but the
  check of lines 310 to 315 asks for a stored \<^verbatim>\<open>have_voice\<close>, so it is skipped
  (lemma \<open>silent_frame_without_voice\<close>) and \<^verbatim>\<open>voice_stop\<close> stays false.
\<close>

theorem endpoint_not_reached:
  "process_audio default_service Map.empty (replicate 10240 0) ''pcm''
       (clocked speech_then_silence 1000) ''a''
     = (Inr \<lparr>r_have_voice = True, r_voice_stop = False, r_speech_prob = Some 0.9\<rparr>,
        [''a'' \<mapsto> voiced_session])
   \<and> process_audio default_service [''a'' \<mapsto> voiced_session] (replicate 1024 0) ''pcm''
       (clocked silence 1500) ''a''
     = (Inr \<lparr>r_have_voice = False, r_voice_stop = False, r_speech_prob = Some 0\<rparr>,
        [''a'' \<mapsto> voiced_session\<lparr>
           voice_window := [True, True, False, False, False, False, False, False, False, False],
           have_voice := False\<rparr>])
   \<and> process_audio default_service
       [''a'' \<mapsto> voiced_session\<lparr>
           voice_window := [True, True, False, False, False, False, False, False, False, False],
           have_voice := False\<rparr>] (replicate 1024 0) ''pcm'' (clocked silence 2100) ''a''
     = (Inr \<lparr>r_have_voice = False, r_voice_stop = False, r_speech_prob = Some 0\<rparr>,
        [''a'' \<mapsto> voiced_session\<lparr>
           voice_window := [True, False, False, False, False, False, False, False, False, False],
           have_voice := False\<rparr>])"
  by (simp add: eval_simps voiced_session_def speech_then_silence_def silence_def)

end
